theory Spec2Isabelle
  imports Main "HOL-Library.Word" "HOL-Library.Multiset"
begin

unbundle bit_operations_syntax

section \<open>Characters\<close>

text \<open>
  \<open>isupper\<close>, \<open>islower\<close> and \<open>tolower\<close> of \<open><cctype>\<close> in the C locale, on the
  character's code.
\<close>

definition isupper :: "char \<Rightarrow> bool" where
  "isupper c = (65 \<le> (of_char c :: nat) \<and> (of_char c :: nat) \<le> 90)"

definition islower :: "char \<Rightarrow> bool" where
  "islower c = (97 \<le> (of_char c :: nat) \<and> (of_char c :: nat) \<le> 122)"

definition tolower :: "char \<Rightarrow> char" where
  "tolower c = (if isupper c then char_of ((of_char c :: nat) + 32) else c)"

section \<open>The chess-rules library and the other external collaborators\<close>

text \<open>
  Modelled from the spec: the header \<open>thc.h\<close> of the chess-rules library is not part of the
  sources. A move carries a source square, a destination square (0..63), a "special" tag
  covering promotion to queen, rook, bishop or knight, the castling kinds and en passant,
  and the captured piece code (a space for a non-capture).
\<close>

datatype SPECIAL =
    NOT_SPECIAL
  | SPECIAL_KING_MOVE
  | SPECIAL_WK_CASTLING
  | SPECIAL_BK_CASTLING
  | SPECIAL_WQ_CASTLING
  | SPECIAL_BQ_CASTLING
  | SPECIAL_PROMOTION_QUEEN
  | SPECIAL_PROMOTION_ROOK
  | SPECIAL_PROMOTION_BISHOP
  | SPECIAL_PROMOTION_KNIGHT
  | SPECIAL_WPAWN_2SQUARES
  | SPECIAL_BPAWN_2SQUARES
  | SPECIAL_WEN_PASSANT
  | SPECIAL_BEN_PASSANT

record Move =
  src :: nat
  dst :: nat
  special :: SPECIAL
  capture :: char

text \<open>
  Modelled from the spec: \<open>thc::Move()\<close>, the invalid (null) move sentinel, and the
  library's validity test (a move from square 0 to square 0 is "not set up").
\<close>

definition Move_default :: Move where
  "Move_default = \<lparr>src = 0, dst = 0, special = NOT_SPECIAL, capture = CHR 0x00\<rparr>"

definition Valid :: "Move \<Rightarrow> bool" where
  "Valid m = (\<not> (src m = 0 \<and> dst m = 0))"

text \<open>
  Modelled from the spec: the outcome of terminal detection (none, white or black
  checkmated, white or black stalemated).
\<close>

datatype TERMINAL =
    NOT_TERMINAL
  | TERMINAL_WCHECKMATE
  | TERMINAL_WSTALEMATE
  | TERMINAL_BCHECKMATE
  | TERMINAL_BSTALEMATE

text \<open>
  Everything the engine calls and does not define. The position type \<open>'p\<close> is opaque
  (\<open>thc::ChessRules\<close>, undo stack included); the engine reads it through the accessors
  and changes it by \<open>PushMove\<close> and \<open>PopMove\<close> only.
  \<^item> \<open>squares\<close>: the piece code on a square (upper case white, lower case black, space
    empty); \<open>WhiteToPlay\<close>; the four castling flags; the en-passant target square
    (\<open>None\<close> for \<open>SQUARE_INVALID\<close>).
  \<^item> \<open>GenLegalMoveList\<close>, \<open>PushMove\<close>, \<open>PopMove\<close>.
  \<^item> \<open>IsDraw\<close>: the result of \<open>cr.IsDraw(false, draw_reason)\<close>; \<open>Evaluate\<close>: the boolean
    result of \<open>cr.Evaluate(terminal)\<close> and the value it leaves in \<open>terminal\<close>.
  \<^item> \<open>time_up n\<close>: whether the \<open>n\<close>-th reading of \<open>steady_clock\<close> that the search
    compares with the budget shows \<open>elapsed_seconds >= TIME_LIMIT_SECONDS\<close>. The theorems
    hold for every such sequence of readings.
  \<^item> \<open>std_sort\<close>: what \<open>std::sort\<close> with the comparator \<open>a.first > b.first\<close> makes of a
    list of scored moves. The standard leaves the order of equal scores open, so the sort
    is a parameter; a theorem that needs it sorted says so.
\<close>

record 'p extern =
  squares :: "'p \<Rightarrow> nat \<Rightarrow> char"
  WhiteToPlay :: "'p \<Rightarrow> bool"
  wking :: "'p \<Rightarrow> bool"
  wqueen :: "'p \<Rightarrow> bool"
  bking :: "'p \<Rightarrow> bool"
  bqueen :: "'p \<Rightarrow> bool"
  enpassant_target :: "'p \<Rightarrow> nat option"
  GenLegalMoveList :: "'p \<Rightarrow> Move list"
  PushMove :: "'p \<Rightarrow> Move \<Rightarrow> 'p"
  PopMove :: "'p \<Rightarrow> Move \<Rightarrow> 'p"
  IsDraw :: "'p \<Rightarrow> bool"
  Evaluate :: "'p \<Rightarrow> bool \<times> TERMINAL"
  time_up :: "nat \<Rightarrow> bool"
  std_sort :: "(int \<times> Move) list \<Rightarrow> (int \<times> Move) list"

section \<open>Engine state\<close>

text \<open>
  \<open>Score\<close> is \<open>float\<close> in the source. Every score the search handles is an integer of
  magnitude far below \<open>2^24\<close> (sums of integer evaluation terms, \<open>INF_SCORE\<close> plus or minus a
  ply, entries read back from the table as \<open>int\<close>), where \<open>float\<close> arithmetic, comparison
  and the cast \<open>(int)\<close> are exact; the model uses \<open>int\<close>.
\<close>

type_synonym Score = int

definition INF_SCORE :: Score where
  "INF_SCORE = 1000000"

definition MAX_DEPTH :: int where
  "MAX_DEPTH = 8"

definition TT_SIZE :: "64 word" where
  "TT_SIZE = push_bit 20 1"

datatype BoundType = BOUND_EXACT | BOUND_LOWER | BOUND_UPPER

text \<open>
  \<open>struct TTEntry\<close>. A \<open>thc::Move\<close> declared without an initialiser holds no determinate
  value until it is assigned; such a move is \<open>None\<close>, here and in the search.
\<close>

record TTEntry =
  tt_key :: "64 word"
  tt_depth :: int
  tt_score :: int
  tt_best_move :: "Move option"
  tt_bound :: BoundType

text \<open>
  The time management members that both engines have: the cancellation flag, and the
  number of clock readings compared with the budget so far.
\<close>

record time_state =
  time_limit_reached :: bool
  clock_reads :: nat

text \<open>
  The members of \<open>SerialEngine\<close> in the super-engine: the time state, the Zobrist
  tables (filled once by \<open>init_zobrist\<close> from \<open>std::mt19937_64\<close>; their values are
  parameters here) and the transposition table (a vector of \<open>TT_SIZE\<close> entries, read
  and written at \<open>key & (TT_SIZE - 1)\<close> only). The diagnostic node counter and the line
  printed per depth are not modelled.
\<close>

record engine = time_state +
  zobrist :: "nat \<Rightarrow> nat \<Rightarrow> 64 word"
  zobrist_side :: "64 word"
  zobrist_castling :: "nat \<Rightarrow> 64 word"
  zobrist_en_passant :: "nat \<Rightarrow> 64 word"
  transposition_table :: "nat \<Rightarrow> TTEntry"

section \<open>Zobrist keys\<close>

text \<open>\<open>piece_to_index\<close>: the \<open>switch\<close> on the lower-cased piece code; \<open>-1\<close> for no piece.\<close>

definition piece_to_index :: "char \<Rightarrow> int" where
  "piece_to_index c =
     (let white = isupper c; lower = tolower c in
      case (if lower = CHR ''p'' then Some 0
            else if lower = CHR ''n'' then Some 1
            else if lower = CHR ''b'' then Some 2
            else if lower = CHR ''r'' then Some 3
            else if lower = CHR ''q'' then Some 4
            else if lower = CHR ''k'' then Some 5
            else None) of
        None \<Rightarrow> - 1
      | Some base \<Rightarrow> (if \<not> white then base + 6 else base))"

text \<open>Body of the loop over the 64 squares in \<open>compute_zobrist_key\<close>.\<close>

definition zobrist_square :: "engine \<Rightarrow> 'p extern \<Rightarrow> 'p \<Rightarrow> nat \<Rightarrow> 64 word \<Rightarrow> 64 word" where
  "zobrist_square E X cr i key =
     (let c = squares X cr i in
      if c \<noteq> CHR '' '' then
        (let idx = piece_to_index c in
         if idx \<ge> 0 then key XOR zobrist E (nat idx) i else key)
      else key)"

definition castling_mask :: "'p extern \<Rightarrow> 'p \<Rightarrow> int" where
  "castling_mask X cr =
     (let m0 = 0;
          m1 = (if wking X cr then m0 OR 1 else m0);
          m2 = (if wqueen X cr then m1 OR 2 else m1);
          m3 = (if bking X cr then m2 OR 4 else m2);
          m4 = (if bqueen X cr then m3 OR 8 else m3)
      in m4)"

definition compute_zobrist_key :: "engine \<Rightarrow> 'p extern \<Rightarrow> 'p \<Rightarrow> 64 word" where
  "compute_zobrist_key E X cr =
     (let key0 = fold (zobrist_square E X cr) [0..<64] 0;
          key1 = (if \<not> WhiteToPlay X cr then key0 XOR zobrist_side E else key0);
          key2 = key1 XOR zobrist_castling E (nat (castling_mask X cr));
          key3 = (case enpassant_target X cr of
                    None \<Rightarrow> key2
                  | Some sq \<Rightarrow> (let file = sq mod 8 in key2 XOR zobrist_en_passant E file))
      in key3)"

text \<open>
  The key as the specification words it, for comparison with the code: the XOR of
  \<open>z_piece[p][sq]\<close> over the occupied squares with the piece order P, N, B, R, Q, K
  (0..5) for white and the same for black (6..11); \<open>z_side\<close> when Black is to move;
  \<open>z_castle[mask]\<close> with bit 0 = white king-side, bit 1 = white queen-side, bit 2 = black
  king-side, bit 3 = black queen-side; \<open>z_ep[file]\<close> when an en-passant target is set.
\<close>

definition spec_piece_index :: "char \<Rightarrow> nat option" where
  "spec_piece_index c =
     map_of [(CHR ''P'', 0), (CHR ''N'', 1), (CHR ''B'', 2), (CHR ''R'', 3), (CHR ''Q'', 4),
             (CHR ''K'', 5), (CHR ''p'', 6), (CHR ''n'', 7), (CHR ''b'', 8), (CHR ''r'', 9),
             (CHR ''q'', 10), (CHR ''k'', 11)] c"

definition spec_castling_mask :: "bool \<Rightarrow> bool \<Rightarrow> bool \<Rightarrow> bool \<Rightarrow> nat" where
  "spec_castling_mask wk wq bk bq =
     (if wk then 2 ^ 0 else 0) + (if wq then 2 ^ 1 else 0)
     + (if bk then 2 ^ 2 else 0) + (if bq then 2 ^ 3 else 0)"

definition xor_list :: "64 word list \<Rightarrow> 64 word" where
  "xor_list ws = foldr (XOR) ws 0"

definition spec_piece_term :: "engine \<Rightarrow> 'p extern \<Rightarrow> 'p \<Rightarrow> nat \<Rightarrow> 64 word" where
  "spec_piece_term E X cr sq =
     (case spec_piece_index (squares X cr sq) of
        None \<Rightarrow> 0
      | Some p \<Rightarrow> zobrist E p sq)"

definition spec_zobrist_key :: "engine \<Rightarrow> 'p extern \<Rightarrow> 'p \<Rightarrow> 64 word" where
  "spec_zobrist_key E X cr =
     xor_list (map (spec_piece_term E X cr) [0..<64])
     XOR (if WhiteToPlay X cr then 0 else zobrist_side E)
     XOR zobrist_castling E
           (spec_castling_mask (wking X cr) (wqueen X cr) (bking X cr) (bqueen X cr))
     XOR (case enpassant_target X cr of
            None \<Rightarrow> 0
          | Some sq \<Rightarrow> zobrist_en_passant E (sq mod 8))"

section \<open>Transposition table\<close>

definition tt_index :: "64 word \<Rightarrow> nat" where
  "tt_index key = unat (key AND (TT_SIZE - 1))"

text \<open>\<open>probe_tt\<close>: the slot if its key matches, \<open>nullptr\<close> (\<open>None\<close>) otherwise.\<close>

definition probe_tt :: "engine \<Rightarrow> 64 word \<Rightarrow> TTEntry option" where
  "probe_tt E key =
     (let entry = transposition_table E (tt_index key) in
      if tt_key entry = key then Some entry else None)"

text \<open>\<open>store_tt\<close>: "Replace if deeper".\<close>

definition store_tt ::
  "engine \<Rightarrow> 64 word \<Rightarrow> int \<Rightarrow> int \<Rightarrow> BoundType \<Rightarrow> Move option \<Rightarrow> engine" where
  "store_tt E key depth score bound best_move =
     (let index = tt_index key; entry = transposition_table E index in
      if depth > tt_depth entry
      then E\<lparr>transposition_table := (transposition_table E)
               (index := \<lparr>tt_key = key, tt_depth = depth, tt_score = score,
                          tt_best_move = best_move, tt_bound = bound\<rparr>)\<rparr>
      else E)"

section \<open>Piece-square tables and move scoring\<close>

definition pawn_table :: "int list" where
  "pawn_table =
    [0, 0, 0, 0, 0, 0, 0, 0,
     50, 50, 50, 50, 50, 50, 50, 50,
     10, 10, 20, 30, 30, 20, 10, 10,
     5, 5, 10, 25, 25, 10, 5, 5,
     0, 0, 0, 20, 20, 0, 0, 0,
     5, - 5, - 10, 0, 0, - 10, - 5, 5,
     5, 10, 10, - 20, - 20, 10, 10, 5,
     0, 0, 0, 0, 0, 0, 0, 0]"

definition knight_table :: "int list" where
  "knight_table =
    [- 50, - 40, - 30, - 30, - 30, - 30, - 40, - 50,
     - 40, - 20, 0, 0, 0, 0, - 20, - 40,
     - 30, 0, 10, 15, 15, 10, 0, - 30,
     - 30, 5, 15, 20, 20, 15, 5, - 30,
     - 30, 0, 15, 20, 20, 15, 0, - 30,
     - 30, 5, 10, 15, 15, 10, 5, - 30,
     - 40, - 20, 0, 5, 5, 0, - 20, - 40,
     - 50, - 40, - 30, - 30, - 30, - 30, - 40, - 50]"

definition bishop_table :: "int list" where
  "bishop_table =
    [- 20, - 10, - 10, - 10, - 10, - 10, - 10, - 20,
     - 10, 0, 0, 0, 0, 0, 0, - 10,
     - 10, 0, 5, 10, 10, 5, 0, - 10,
     - 10, 5, 5, 10, 10, 5, 5, - 10,
     - 10, 0, 10, 10, 10, 10, 0, - 10,
     - 10, 10, 10, 10, 10, 10, 10, - 10,
     - 10, 5, 0, 0, 0, 0, 5, - 10,
     - 20, - 10, - 10, - 10, - 10, - 10, - 10, - 20]"

definition rook_table :: "int list" where
  "rook_table =
    [0, 0, 0, 0, 0, 0, 0, 0,
     5, 10, 10, 10, 10, 10, 10, 5,
     - 5, 0, 0, 0, 0, 0, 0, - 5,
     - 5, 0, 0, 0, 0, 0, 0, - 5,
     - 5, 0, 0, 0, 0, 0, 0, - 5,
     - 5, 0, 0, 0, 0, 0, 0, - 5,
     - 5, 0, 0, 0, 0, 0, 0, - 5,
     0, 0, 0, 5, 5, 0, 0, 0]"

definition queen_table :: "int list" where
  "queen_table =
    [- 20, - 10, - 10, - 5, - 5, - 10, - 10, - 20,
     - 10, 0, 0, 0, 0, 0, 0, - 10,
     - 10, 0, 5, 5, 5, 5, 0, - 10,
     - 5, 0, 5, 5, 5, 5, 0, - 5,
     0, 0, 5, 5, 5, 5, 0, - 5,
     - 10, 5, 5, 5, 5, 5, 0, - 10,
     - 10, 0, 5, 0, 0, 0, 0, - 10,
     - 20, - 10, - 10, - 5, - 5, - 10, - 10, - 20]"

definition king_table :: "int list" where
  "king_table =
    [- 30, - 40, - 40, - 50, - 50, - 40, - 40, - 30,
     - 30, - 40, - 40, - 50, - 50, - 40, - 40, - 30,
     - 30, - 40, - 40, - 50, - 50, - 40, - 40, - 30,
     - 30, - 40, - 40, - 50, - 50, - 40, - 40, - 30,
     - 20, - 30, - 30, - 40, - 40, - 30, - 30, - 20,
     - 10, - 20, - 20, - 20, - 20, - 20, - 20, - 10,
     20, 20, 0, 0, 0, 0, 20, 20,
     20, 30, 10, 0, 0, 10, 30, 20]"

text \<open>
  \<open>score_move\<close> returns a \<open>float\<close>: the capture and promotion bonuses (whole numbers) plus
  a table difference divided by \<open>100.0f\<close>. The model keeps the value in hundredths, as an
  integer: the table differences are below 100 in magnitude, so two values differ
  by at least 0.01 or are computed from the same operands, and the rounding of the
  \<open>float\<close> operations (below 0.0001 at this magnitude) changes no comparison. The value is
  used only to order moves. A move's squares are 0..63, where the table reads are in
  bounds.
\<close>

definition capture_bonus :: "char \<Rightarrow> int" where
  "capture_bonus c =
     (let l = tolower c in
      if l = CHR ''p'' then 100
      else if l = CHR ''n'' then 300
      else if l = CHR ''b'' then 300
      else if l = CHR ''r'' then 500
      else if l = CHR ''q'' then 900
      else if l = CHR ''k'' then 100000
      else 0)"

definition is_promotion :: "SPECIAL \<Rightarrow> bool" where
  "is_promotion s =
     (s = SPECIAL_PROMOTION_QUEEN \<or> s = SPECIAL_PROMOTION_ROOK
      \<or> s = SPECIAL_PROMOTION_BISHOP \<or> s = SPECIAL_PROMOTION_KNIGHT)"

definition table_gain :: "int list \<Rightarrow> nat \<Rightarrow> nat \<Rightarrow> int" where
  "table_gain table from_index to_index = table ! to_index - table ! from_index"

definition score_move :: "Move \<Rightarrow> 'p extern \<Rightarrow> 'p \<Rightarrow> int" where
  "score_move move X cr =
     (let score0 = 0;
          score1 = (if capture move \<noteq> CHR '' '' then score0 + capture_bonus (capture move)
                    else score0);
          score2 = (if is_promotion (special move) then score1 + 900 else score1);
          from_index = src move;
          to_index = dst move;
          piece = squares X cr from_index
      in if isupper piece then
           (if piece = CHR ''P'' then score2 + table_gain pawn_table from_index to_index
            else if piece = CHR ''N'' then score2 + table_gain knight_table from_index to_index
            else if piece = CHR ''B'' then score2 + table_gain bishop_table from_index to_index
            else if piece = CHR ''R'' then score2 + table_gain rook_table from_index to_index
            else if piece = CHR ''Q'' then score2 + table_gain queen_table from_index to_index
            else if piece = CHR ''K'' then score2 + table_gain king_table from_index to_index
            else score2)
         else
           (let flipped_from_index = 63 - from_index;
                flipped_to_index = 63 - to_index
            in if piece = CHR ''p''
               then score2 + table_gain pawn_table flipped_from_index flipped_to_index
               else if piece = CHR ''n''
               then score2 + table_gain knight_table flipped_from_index flipped_to_index
               else if piece = CHR ''b''
               then score2 + table_gain bishop_table flipped_from_index flipped_to_index
               else if piece = CHR ''r''
               then score2 + table_gain rook_table flipped_from_index flipped_to_index
               else if piece = CHR ''q''
               then score2 + table_gain queen_table flipped_from_index flipped_to_index
               else if piece = CHR ''k''
               then score2 + table_gain king_table flipped_from_index flipped_to_index
               else score2))"

section \<open>Static evaluation: mobility\<close>

text \<open>
  \<open>evaluate_mobility\<close> generates the legal moves of a copy of the position (the moves of
  the side to move) and weighs those made by a piece of the requested colour. The
  parameter \<open>piece_indices\<close> is never read.
\<close>

definition mobility_step :: "'p extern \<Rightarrow> 'p \<Rightarrow> bool \<Rightarrow> Move \<Rightarrow> int \<Rightarrow> int" where
  "mobility_step X cr_copy is_white move mobility_score =
     (let piece = squares X cr_copy (src move) in
      if (is_white \<and> isupper piece) \<or> (\<not> is_white \<and> islower piece) then
        (let lower_piece = tolower piece in
         if lower_piece = CHR ''n'' then mobility_score + 4
         else if lower_piece = CHR ''b'' then mobility_score + 4
         else if lower_piece = CHR ''r'' then mobility_score + 2
         else if lower_piece = CHR ''q'' then mobility_score + 1
         else mobility_score)
      else mobility_score)"

definition evaluate_mobility :: "'p extern \<Rightarrow> 'p \<Rightarrow> bool \<Rightarrow> int list \<Rightarrow> int" where
  "evaluate_mobility X cr is_white piece_indices =
     (let cr_copy = cr; moves = GenLegalMoveList X cr_copy in
      fold (mobility_step X cr_copy is_white) moves 0)"

section \<open>Static evaluation: pawn structure\<close>

text \<open>
  \<^verbatim>\<open>int file_counts[8] = {0}; for (int file : pawn_files) file_counts[file]++;\<close>
  The array has eight counters and the loop does no bounds check: a file outside 0..7 is
  undefined behaviour in C++, which the model reports as \<open>None\<close>. The only caller,
  \<open>static_eval\<close>, passes \<open>index % 8\<close> for a square index 0..63.
\<close>

fun count_pawn_files :: "int list \<Rightarrow> int list \<Rightarrow> int list option" where
  "count_pawn_files [] file_counts = Some file_counts"
| "count_pawn_files (file # pawn_files) file_counts =
     (if 0 \<le> file \<and> file < 8
      then count_pawn_files pawn_files
             (file_counts[nat file := file_counts ! nat file + 1])
      else None)"

text \<open>
  Body of the first \<open>for (int i = 0; i < 8; ++i)\<close> loop, on the loop variables
  \<open>(score, pawn_islands, in_island)\<close>: the doubled-pawn penalty and the island count.
\<close>

fun island_step :: "int list \<Rightarrow> nat \<Rightarrow> int \<times> int \<times> bool \<Rightarrow> int \<times> int \<times> bool" where
  "island_step file_counts i (score, pawn_islands, in_island) =
     (if file_counts ! i > 0 then
        (let score1 = (if file_counts ! i > 1
                       then score - 10 * (file_counts ! i - 1) else score)
         in if \<not> in_island then (score1, pawn_islands + 1, True)
            else (score1, pawn_islands, in_island))
      else (score, pawn_islands, False))"

text \<open>Body of the second loop: the isolated-pawn penalty.\<close>

fun isolated_step :: "int list \<Rightarrow> nat \<Rightarrow> int \<Rightarrow> int" where
  "isolated_step file_counts i score =
     (if file_counts ! i > 0 then
        (let has_adjacent_pawns =
               ((i > 0 \<and> file_counts ! (i - 1) > 0) \<or> (i < 7 \<and> file_counts ! (i + 1) > 0))
         in if \<not> has_adjacent_pawns then score - 15 else score)
      else score)"

text \<open>
  \<open>SerialEngine::evaluate_pawn_structure\<close>. The parameter \<open>is_white\<close> is declared and
  never read, as in the source. Between the two loops the source subtracts
  \<open>5 * (pawn_islands - 1)\<close> without looking at \<open>pawn_islands\<close>.
\<close>

definition evaluate_pawn_structure :: "int list \<Rightarrow> bool \<Rightarrow> int option" where
  "evaluate_pawn_structure pawn_files is_white =
     (case count_pawn_files pawn_files (replicate 8 0) of
        None \<Rightarrow> None
      | Some file_counts \<Rightarrow>
          (case fold (island_step file_counts) [0..<8] (0, 0, False) of
             (score1, pawn_islands, in_island) \<Rightarrow>
               Some (fold (isolated_step file_counts) [0..<8]
                          (score1 - 5 * (pawn_islands - 1)))))"

section \<open>Static evaluation: kings, endgame, total\<close>

text \<open>Integer division and remainder of C++ (truncation towards zero).\<close>

definition c_div :: "int \<Rightarrow> int \<Rightarrow> int" where
  "c_div a b = (if (a < 0) = (b < 0) then \<bar>a\<bar> div \<bar>b\<bar> else - (\<bar>a\<bar> div \<bar>b\<bar>))"

definition c_mod :: "int \<Rightarrow> int \<Rightarrow> int" where
  "c_mod a b = a - b * c_div a b"

text \<open>Body of the loop \<open>for (int df = -1; df <= 1; ++df)\<close> over the shield squares.\<close>

definition shield_step ::
  "'p extern \<Rightarrow> 'p \<Rightarrow> int \<Rightarrow> int \<Rightarrow> int \<Rightarrow> bool \<Rightarrow> int \<Rightarrow> int \<Rightarrow> int" where
  "shield_step X cr rank file direction is_white df pawn_shield_bonus =
     (let shield_rank = rank + direction;
          shield_file = file + df
      in if shield_rank \<ge> 0 \<and> shield_rank \<le> 7 \<and> shield_file \<ge> 0 \<and> shield_file \<le> 7 then
           (let shield_index = shield_rank * 8 + shield_file;
                shield_piece = squares X cr (nat shield_index)
            in if (is_white \<and> shield_piece = CHR ''P'') \<or> (\<not> is_white \<and> shield_piece = CHR ''p'')
               then pawn_shield_bonus + 10
               else pawn_shield_bonus)
         else pawn_shield_bonus)"

definition evaluate_king_safety :: "'p extern \<Rightarrow> 'p \<Rightarrow> int \<Rightarrow> bool \<Rightarrow> bool \<Rightarrow> int" where
  "evaluate_king_safety X cr king_index is_white endgame =
     (let safety_score = 0 in
      if king_index = - 1 then safety_score
      else if endgame then safety_score
      else
        (let rank = c_div king_index 8;
             file = c_mod king_index 8;
             direction = (if is_white then - 1 else 1);
             pawn_shield_bonus = fold (shield_step X cr rank file direction is_white) [- 1, 0, 1] 0;
             safety_score1 = safety_score + pawn_shield_bonus
         in if pawn_shield_bonus = 0 then safety_score1 - 20 else safety_score1))"

text \<open>
  \<open>evaluate_king_activity\<close>. The source computes the distance to the centre in \<open>float\<close>,
  \<open>abs(rank - 3.5f) + abs(file - 3.5f)\<close>, and subtracts \<open>static_cast<int>(distance * 5)\<close>.
  Both terms are multiples of one half, so the arithmetic is exact and the product is
  \<open>5 * (|2 rank - 7| + |2 file - 7|) / 2\<close>, a non-negative number truncated to an integer.
\<close>

definition evaluate_king_activity :: "int \<Rightarrow> int \<Rightarrow> bool \<Rightarrow> int" where
  "evaluate_king_activity own_king_index opponent_king_index is_white =
     (let activity_score = 0;
          rank = c_div own_king_index 8;
          file = c_mod own_king_index 8;
          activity_score1 = activity_score - (5 * (\<bar>2 * rank - 7\<bar> + \<bar>2 * file - 7\<bar>)) div 2;
          opponent_rank = c_div opponent_king_index 8;
          opponent_file = c_mod opponent_king_index 8;
          king_distance = \<bar>rank - opponent_rank\<bar> + \<bar>file - opponent_file\<bar>;
          activity_score2 = (if is_white then activity_score1 - king_distance * 2
                             else activity_score1 + king_distance * 2)
      in activity_score2 + 20)"

definition ENDGAME_MATERIAL_THRESHOLD :: int where
  "ENDGAME_MATERIAL_THRESHOLD = 2400"

definition is_endgame :: "int \<Rightarrow> int \<Rightarrow> bool" where
  "is_endgame white_material black_material =
     (let total_material = white_material + black_material in
      total_material \<le> ENDGAME_MATERIAL_THRESHOLD)"

text \<open>The local variables of \<open>static_eval\<close> that its loop over the squares updates.\<close>

record eval_vars =
  total_score :: Score
  white_material :: int
  black_material :: int
  white_bishops :: int
  black_bishops :: int
  white_king_index :: int
  black_king_index :: int
  white_pawn_files :: "int list"
  black_pawn_files :: "int list"
  white_piece_indices :: "int list"
  black_piece_indices :: "int list"

definition eval_vars_init :: eval_vars where
  "eval_vars_init =
     \<lparr>total_score = 0, white_material = 0, black_material = 0,
      white_bishops = 0, black_bishops = 0,
      white_king_index = - 1, black_king_index = - 1,
      white_pawn_files = [], black_pawn_files = [],
      white_piece_indices = [], black_piece_indices = []\<rparr>"

text \<open>
  Body of the loop over the squares: the \<open>switch\<close> yields the piece value, the positional
  bonus and the updated counters; then the square's score is added for White and
  subtracted for Black.
\<close>

definition eval_square :: "'p extern \<Rightarrow> 'p \<Rightarrow> nat \<Rightarrow> eval_vars \<Rightarrow> eval_vars" where
  "eval_square X cr i v =
     (let piece = squares X cr i in
      if piece = CHR '' '' then v
      else
        (let index = i;
             flipped_index = 63 - i;
             is_white = isupper piece;
             lower_piece = tolower piece;
             t = (if is_white then index else flipped_index)
         in case
              (if lower_piece = CHR ''p'' then
                 (100, pawn_table ! t,
                  if is_white
                  then v\<lparr>white_material := white_material v + 100,
                         white_pawn_files := white_pawn_files v @ [int (index mod 8)]\<rparr>
                  else v\<lparr>black_material := black_material v + 100,
                         black_pawn_files := black_pawn_files v @ [int (index mod 8)]\<rparr>)
               else if lower_piece = CHR ''n'' then
                 (320, knight_table ! t,
                  if is_white
                  then v\<lparr>white_material := white_material v + 320,
                         white_piece_indices := white_piece_indices v @ [int index]\<rparr>
                  else v\<lparr>black_material := black_material v + 320,
                         black_piece_indices := black_piece_indices v @ [int index]\<rparr>)
               else if lower_piece = CHR ''b'' then
                 (330, bishop_table ! t,
                  if is_white
                  then v\<lparr>white_material := white_material v + 330,
                         white_bishops := white_bishops v + 1,
                         white_piece_indices := white_piece_indices v @ [int index]\<rparr>
                  else v\<lparr>black_material := black_material v + 330,
                         black_bishops := black_bishops v + 1,
                         black_piece_indices := black_piece_indices v @ [int index]\<rparr>)
               else if lower_piece = CHR ''r'' then
                 (500, rook_table ! t,
                  if is_white
                  then v\<lparr>white_material := white_material v + 500,
                         white_piece_indices := white_piece_indices v @ [int index]\<rparr>
                  else v\<lparr>black_material := black_material v + 500,
                         black_piece_indices := black_piece_indices v @ [int index]\<rparr>)
               else if lower_piece = CHR ''q'' then
                 (900, queen_table ! t,
                  if is_white
                  then v\<lparr>white_material := white_material v + 900,
                         white_piece_indices := white_piece_indices v @ [int index]\<rparr>
                  else v\<lparr>black_material := black_material v + 900,
                         black_piece_indices := black_piece_indices v @ [int index]\<rparr>)
               else if lower_piece = CHR ''k'' then
                 (20000, king_table ! t,
                  if is_white then v\<lparr>white_king_index := int index\<rparr>
                  else v\<lparr>black_king_index := int index\<rparr>)
               else (0, 0, v))
            of (piece_value, positional_bonus, v1) \<Rightarrow>
              (let square_score = piece_value + positional_bonus in
               if is_white then v1\<lparr>total_score := total_score v1 + square_score\<rparr>
               else v1\<lparr>total_score := total_score v1 - square_score\<rparr>)))"

text \<open>
  \<open>SerialEngine::static_eval\<close>. The pawn files it collects are \<open>index % 8\<close>, inside the
  bounds of the file counters, so \<open>evaluate_pawn_structure\<close> is defined on them
  (lemma \<open>static_eval_pawn_files_defined\<close> below) and \<open>the\<close> reads its value.
\<close>

definition static_eval :: "'p extern \<Rightarrow> 'p \<Rightarrow> Score" where
  "static_eval X cr =
     (let v = fold (eval_square X cr) [0..<64] eval_vars_init;
          s1 = (if white_bishops v \<ge> 2 then total_score v + 50 else total_score v);
          s2 = (if black_bishops v \<ge> 2 then s1 - 50 else s1);
          s3 = s2 + evaluate_mobility X cr True (white_piece_indices v);
          s4 = s3 - evaluate_mobility X cr False (black_piece_indices v);
          s5 = s4 + the (evaluate_pawn_structure (white_pawn_files v) True);
          s6 = s5 - the (evaluate_pawn_structure (black_pawn_files v) False);
          endgame = is_endgame (white_material v) (black_material v);
          s7 = s6 + evaluate_king_safety X cr (white_king_index v) True endgame;
          s8 = s7 - evaluate_king_safety X cr (black_king_index v) False endgame
      in if endgame
         then s8 + evaluate_king_activity (white_king_index v) (black_king_index v) True
                 - evaluate_king_activity (black_king_index v) (white_king_index v) False
         else s8)"

section \<open>The search of the engine with a transposition table (super-engine)\<close>

text \<open>
  What a call of \<open>solve_serial_engine\<close> leaves behind: the returned score, the content of
  the variable that the reference parameter \<open>best_move\<close> names, the position \<open>cr\<close> (passed
  by reference and changed by push and pop), and the engine's members.
\<close>

record ('p, 'e) result =
  ret :: Score
  out_best_move :: "Move option"
  pos :: 'p
  eng :: 'e

text \<open>
  The transposition-table cut at the head of \<open>solve_serial_engine\<close>
  (\<open>if (entry && entry->depth >= search_depth) { switch ... }\<close>): either the node returns
  a score at once (\<open>Cut\<close>), or the search goes on with the window \<open>(alpha, beta)\<close>.
\<close>

datatype probe_outcome = Cut Score | Window Score Score

definition probe_cut :: "TTEntry option \<Rightarrow> int \<Rightarrow> Score \<Rightarrow> Score \<Rightarrow> probe_outcome" where
  "probe_cut entry search_depth alpha_score beta_score =
     (case entry of
        None \<Rightarrow> Window alpha_score beta_score
      | Some e \<Rightarrow>
          if tt_depth e \<ge> search_depth then
            (case (case tt_bound e of
                     BOUND_EXACT \<Rightarrow> Cut (tt_score e)
                   | BOUND_LOWER \<Rightarrow>
                       if tt_score e \<ge> beta_score then Cut (tt_score e)
                       else Window (max alpha_score (tt_score e)) beta_score
                   | BOUND_UPPER \<Rightarrow>
                       if tt_score e \<le> alpha_score then Cut (tt_score e)
                       else Window alpha_score (min beta_score (tt_score e))) of
               Cut s \<Rightarrow> Cut s
             | Window a b \<Rightarrow> if a \<ge> b then Cut (tt_score e) else Window a b)
          else Window alpha_score beta_score)"

text \<open>
  How the loop over the ordered moves ends: by the cancellation return inside the loop,
  or by running to its end or to a \<open>break\<close>, with the loop variables \<open>best_score\<close>,
  \<open>local_best\<close>, \<open>alpha_score\<close>, \<open>beta_score\<close>. Both carry the content of \<open>best_move\<close>,
  the position and the engine.
\<close>

datatype ('p, 'e) loop_result =
    Cancelled "Move option" 'p 'e
  | Completed Score "Move option" Score Score "Move option" 'p 'e

text \<open>
  The loop \<open>for (auto &entrymv : scored_moves)\<close>. The recursive call is the parameter
  \<open>rec\<close>; the position handed to \<open>PopMove\<close> is the one the recursive call returns.
\<close>

fun search_moves ::
  "('p \<Rightarrow> bool \<Rightarrow> Move option \<Rightarrow> int \<Rightarrow> int \<Rightarrow> Score \<Rightarrow> Score \<Rightarrow> engine \<Rightarrow> ('p, engine) result option)
   \<Rightarrow> 'p extern \<Rightarrow> bool \<Rightarrow> int \<Rightarrow> int \<Rightarrow> (int \<times> Move) list \<Rightarrow> 'p \<Rightarrow> Move option
   \<Rightarrow> Score \<Rightarrow> Move option \<Rightarrow> Score \<Rightarrow> Score \<Rightarrow> engine \<Rightarrow> ('p, engine) loop_result option" where
  "search_moves rec X is_white_player depth max_depth [] cr best_move
       best_score local_best alpha_score beta_score E =
     Some (Completed best_score local_best alpha_score beta_score best_move cr E)"
| "search_moves rec X is_white_player depth max_depth (entrymv # rest) cr best_move
       best_score local_best alpha_score beta_score E =
     (case rec (PushMove X cr (snd entrymv)) (\<not> is_white_player) best_move (depth + 1)
               max_depth alpha_score beta_score E of
        None \<Rightarrow> None
      | Some r \<Rightarrow>
          (let current_score = ret r;
               cr1 = PopMove X (pos r) (snd entrymv);
               best_move1 = out_best_move r;
               E1 = eng r
           in if time_limit_reached E1 then Some (Cancelled best_move1 cr1 E1)
              else if is_white_player then
                (let improved = (current_score > best_score);
                     best_score1 = (if improved then current_score else best_score);
                     local_best1 = (if improved then Some (snd entrymv) else local_best);
                     alpha_score1 = (if improved then max alpha_score best_score1
                                     else alpha_score)
                 in if alpha_score1 \<ge> beta_score
                    then Some (Completed best_score1 local_best1 alpha_score1 beta_score
                                 best_move1 cr1 E1)
                    else search_moves rec X is_white_player depth max_depth rest cr1 best_move1
                           best_score1 local_best1 alpha_score1 beta_score E1)
              else
                (let improved = (current_score < best_score);
                     best_score1 = (if improved then current_score else best_score);
                     local_best1 = (if improved then Some (snd entrymv) else local_best);
                     beta_score1 = (if improved then min beta_score best_score1
                                    else beta_score)
                 in if beta_score1 \<le> alpha_score
                    then Some (Completed best_score1 local_best1 alpha_score beta_score1
                                 best_move1 cr1 E1)
                    else search_moves rec X is_white_player depth max_depth rest cr1 best_move1
                           best_score1 local_best1 alpha_score beta_score1 E1)))"

text \<open>The order in which a node searches its moves: the legal moves, scored and sorted.\<close>

definition scored_moves :: "'p extern \<Rightarrow> 'p \<Rightarrow> (int \<times> Move) list" where
  "scored_moves X cr =
     std_sort X (map (\<lambda>m. (score_move m X cr, m)) (GenLegalMoveList X cr))"

text \<open>The bound stored with a finished node.\<close>

definition store_bound :: "Score \<Rightarrow> Score \<Rightarrow> Score \<Rightarrow> BoundType" where
  "store_bound best_score alpha_original beta_score =
     (if best_score \<le> alpha_original then BOUND_UPPER
      else if best_score \<ge> beta_score then BOUND_LOWER
      else BOUND_EXACT)"

text \<open>
  \<open>solve_serial_engine\<close> from the draw test to the end, entered with the window left by
  the transposition-table probe.
\<close>

definition search_expand ::
  "('p \<Rightarrow> bool \<Rightarrow> Move option \<Rightarrow> int \<Rightarrow> int \<Rightarrow> Score \<Rightarrow> Score \<Rightarrow> engine \<Rightarrow> ('p, engine) result option)
   \<Rightarrow> 'p extern \<Rightarrow> 'p \<Rightarrow> bool \<Rightarrow> Move option \<Rightarrow> int \<Rightarrow> int \<Rightarrow> 64 word \<Rightarrow> Score \<Rightarrow> int
   \<Rightarrow> Score \<Rightarrow> Score \<Rightarrow> engine \<Rightarrow> ('p, engine) result option" where
  "search_expand rec X cr is_white_player best_move depth max_depth key alpha_original
       search_depth alpha_score beta_score E =
     (if IsDraw X cr then Some \<lparr>ret = 0, out_best_move = best_move, pos = cr, eng = E\<rparr>
      else
        (case Evaluate X cr of
           (ok, terminal) \<Rightarrow>
             if ok \<and> terminal = TERMINAL_WCHECKMATE
             then Some \<lparr>ret = - INF_SCORE + depth, out_best_move = best_move, pos = cr, eng = E\<rparr>
             else if ok \<and> terminal = TERMINAL_BCHECKMATE
             then Some \<lparr>ret = INF_SCORE - depth, out_best_move = best_move, pos = cr, eng = E\<rparr>
             else if ok \<and> (terminal = TERMINAL_WSTALEMATE \<or> terminal = TERMINAL_BSTALEMATE)
             then Some \<lparr>ret = 0, out_best_move = best_move, pos = cr, eng = E\<rparr>
             else if depth = max_depth
             then Some \<lparr>ret = static_eval X cr, out_best_move = best_move, pos = cr, eng = E\<rparr>
             else if GenLegalMoveList X cr = []
             then Some \<lparr>ret = 0, out_best_move = best_move, pos = cr, eng = E\<rparr>
             else
               (case search_moves rec X is_white_player depth max_depth (scored_moves X cr)
                       cr best_move (if is_white_player then - INF_SCORE else INF_SCORE)
                       None alpha_score beta_score E of
                  None \<Rightarrow> None
                | Some (Cancelled best_move1 cr1 E1) \<Rightarrow>
                    Some \<lparr>ret = 0, out_best_move = best_move1, pos = cr1, eng = E1\<rparr>
                | Some (Completed best_score local_best alpha_score1 beta_score1
                          best_move1 cr1 E1) \<Rightarrow>
                    (let bound = store_bound best_score alpha_original beta_score1;
                         E2 = store_tt E1 key search_depth best_score bound local_best
                     in Some \<lparr>ret = best_score,
                              out_best_move = (if depth = 0 then local_best else best_move1),
                              pos = cr1, eng = E2\<rparr>))))"

text \<open>
  \<open>solve_serial_engine\<close> from its entry: the cancellation test, the clock test at every
  fifth ply, the key, and the transposition-table probe.
\<close>

definition search_node ::
  "('p \<Rightarrow> bool \<Rightarrow> Move option \<Rightarrow> int \<Rightarrow> int \<Rightarrow> Score \<Rightarrow> Score \<Rightarrow> engine \<Rightarrow> ('p, engine) result option)
   \<Rightarrow> 'p extern \<Rightarrow> 'p \<Rightarrow> bool \<Rightarrow> Move option \<Rightarrow> int \<Rightarrow> int
   \<Rightarrow> Score \<Rightarrow> Score \<Rightarrow> engine \<Rightarrow> ('p, engine) result option" where
  "search_node rec X cr is_white_player best_move depth max_depth alpha_score beta_score E =
     (if time_limit_reached E
      then Some \<lparr>ret = 0, out_best_move = best_move, pos = cr, eng = E\<rparr>
      else if c_mod depth 5 = 0 \<and> time_up X (clock_reads E)
      then Some \<lparr>ret = 0, out_best_move = best_move, pos = cr,
                 eng = E\<lparr>time_limit_reached := True, clock_reads := clock_reads E + 1\<rparr>\<rparr>
      else
        (let E1 = (if c_mod depth 5 = 0 then E\<lparr>clock_reads := clock_reads E + 1\<rparr> else E);
             key = compute_zobrist_key E1 X cr;
             alpha_original = alpha_score;
             search_depth = max_depth - depth
         in case probe_cut (probe_tt E1 key) search_depth alpha_score beta_score of
              Cut s \<Rightarrow> Some \<lparr>ret = s, out_best_move = best_move, pos = cr, eng = E1\<rparr>
            | Window a b \<Rightarrow>
                search_expand rec X cr is_white_player best_move depth max_depth key
                  alpha_original search_depth a b E1))"

text \<open>
  \<open>SerialEngine::solve_serial_engine\<close>. The recursion of the source ends because \<open>depth\<close>
  grows to \<open>max_depth\<close>; the model counts the nesting of calls down from \<open>fuel\<close> and
  answers \<open>None\<close> when it is used up.
\<close>

primrec solve_serial_engine ::
  "nat \<Rightarrow> 'p extern \<Rightarrow> 'p \<Rightarrow> bool \<Rightarrow> Move option \<Rightarrow> int \<Rightarrow> int
   \<Rightarrow> Score \<Rightarrow> Score \<Rightarrow> engine \<Rightarrow> ('p, engine) result option" where
  "solve_serial_engine 0 X cr is_white_player best_move depth max_depth
       alpha_score beta_score E = None"
| "solve_serial_engine (Suc fuel) X cr is_white_player best_move depth max_depth
       alpha_score beta_score E =
     search_node (solve_serial_engine fuel X) X cr is_white_player best_move depth max_depth
       alpha_score beta_score E"

text \<open>
  The deepening loop of \<open>solve\<close> over the remaining depths, with the variables
  \<open>best_move_so_far\<close> and \<open>move_found\<close>. \<open>current_best_move\<close> is declared afresh, without
  an initialiser, in every iteration.
\<close>

fun deepen ::
  "nat \<Rightarrow> 'p extern \<Rightarrow> bool \<Rightarrow> int list \<Rightarrow> 'p \<Rightarrow> engine \<Rightarrow> Move option \<Rightarrow> bool
   \<Rightarrow> (Move option \<times> bool \<times> 'p \<times> engine) option" where
  "deepen fuel X is_white_player [] cr E best_move_so_far move_found =
     Some (best_move_so_far, move_found, cr, E)"
| "deepen fuel X is_white_player (current_depth # depths) cr E best_move_so_far move_found =
     (if time_limit_reached E then Some (best_move_so_far, move_found, cr, E)
      else
        (case solve_serial_engine fuel X cr is_white_player None 0 current_depth
                (- INF_SCORE) INF_SCORE E of
           None \<Rightarrow> None
         | Some r \<Rightarrow>
             if time_limit_reached (eng r)
             then Some (best_move_so_far, move_found, pos r, eng r)
             else deepen fuel X is_white_player depths (pos r) (eng r) (out_best_move r) True))"

text \<open>
  \<open>SerialEngine::solve\<close>: the move it returns (\<open>None\<close> when that is a move variable that
  was never assigned), the position and the engine afterwards.
\<close>

definition solve ::
  "nat \<Rightarrow> 'p extern \<Rightarrow> 'p \<Rightarrow> bool \<Rightarrow> engine \<Rightarrow> (Move option \<times> 'p \<times> engine) option" where
  "solve fuel X cr is_white_player E =
     (case deepen fuel X is_white_player [1..MAX_DEPTH] cr
             (E\<lparr>time_limit_reached := False\<rparr>) None False of
        None \<Rightarrow> None
      | Some (best_move_so_far, move_found, cr1, E1) \<Rightarrow>
          if move_found then Some (best_move_so_far, cr1, E1)
          else
            (let legal_moves = GenLegalMoveList X cr1 in
             if legal_moves \<noteq> [] then Some (Some (legal_moves ! 0), cr1, E1)
             else Some (Some Move_default, cr1, E1)))"

section \<open>Quiescence search\<close>

text \<open>
  The loop over the scored captures in \<open>quiesce\<close> of the super-engine, with the recursive
  call as the parameter \<open>rec\<close>. \<open>quiesce\<close> changes no member of the engine; it reads the
  cancellation flag \<open>cancelled\<close> after each capture.
\<close>

fun quiesce_captures ::
  "('p \<Rightarrow> Score \<Rightarrow> Score \<Rightarrow> (Score \<times> 'p) option) \<Rightarrow> 'p extern \<Rightarrow> bool
   \<Rightarrow> (int \<times> Move) list \<Rightarrow> 'p \<Rightarrow> Score \<Rightarrow> Score \<Rightarrow> (Score \<times> 'p) option" where
  "quiesce_captures rec X cancelled [] cr alpha beta = Some (alpha, cr)"
| "quiesce_captures rec X cancelled (entry # rest) cr alpha beta =
     (case rec (PushMove X cr (snd entry)) (- beta) (- alpha) of
        None \<Rightarrow> None
      | Some (v, cr1) \<Rightarrow>
          (let val = - v;
               cr2 = PopMove X cr1 (snd entry)
           in if cancelled then Some (0, cr2)
              else if val \<ge> beta then Some (val, cr2)
              else quiesce_captures rec X cancelled rest cr2
                     (if val > alpha then val else alpha) beta))"

text \<open>The captures of a position in the order \<open>quiesce\<close> searches them.\<close>

definition scored_captures :: "'p extern \<Rightarrow> 'p \<Rightarrow> (int \<times> Move) list" where
  "scored_captures X cr =
     (let moves = GenLegalMoveList X cr;
          capture_moves = filter (\<lambda>m. capture m \<noteq> CHR '' '') moves
      in std_sort X (map (\<lambda>m. (score_move m X cr, m)) capture_moves))"

definition quiesce_node ::
  "('p \<Rightarrow> Score \<Rightarrow> Score \<Rightarrow> (Score \<times> 'p) option) \<Rightarrow> 'p extern \<Rightarrow> bool
   \<Rightarrow> 'p \<Rightarrow> Score \<Rightarrow> Score \<Rightarrow> (Score \<times> 'p) option" where
  "quiesce_node rec X cancelled cr alpha beta =
     (let stand_pat = static_eval X cr in
      if stand_pat \<ge> beta then Some (stand_pat, cr)
      else
        (let alpha1 = (if stand_pat > alpha then stand_pat else alpha)
         in quiesce_captures rec X cancelled (scored_captures X cr) cr alpha1 beta))"

text \<open>
  \<open>SerialEngine::quiesce\<close> of the super-engine. Its recursion has no depth limit, so the
  model counts the nesting of calls down from \<open>fuel\<close>; \<open>None\<close> means the fuel did not
  suffice. \<open>cancelled\<close> is the value of \<open>time_limit_reached\<close>, which \<open>quiesce\<close> never
  writes.
\<close>

primrec quiesce ::
  "nat \<Rightarrow> 'p extern \<Rightarrow> bool \<Rightarrow> 'p \<Rightarrow> Score \<Rightarrow> Score \<Rightarrow> (Score \<times> 'p) option" where
  "quiesce 0 X cancelled cr alpha beta = None"
| "quiesce (Suc fuel) X cancelled cr alpha beta =
     quiesce_node (quiesce fuel X cancelled) X cancelled cr alpha beta"

text \<open>
  \<open>SerialEngine::quiesce\<close> of the prune-engine: its second statement is
  \<open>return static_eval(cr);\<close>, and the stand-pat test and the capture search that follow
  it in the source are never reached.
\<close>

definition prune_quiesce :: "'p extern \<Rightarrow> 'p \<Rightarrow> Score \<Rightarrow> Score \<Rightarrow> Score \<times> 'p" where
  "prune_quiesce X cr alpha beta = (static_eval X cr, cr)"

section \<open>The search of the engine with killer and history tables (prune-engine)\<close>

definition prune_MAX_DEPTH :: int where
  "prune_MAX_DEPTH = 7"

definition MAX_KILLER_MOVES :: nat where
  "MAX_KILLER_MOVES = 2"

text \<open>
  The members of \<open>SerialEngine\<close> in the prune-engine: the time state, the principal
  variation of the finished iterations, the killer moves per depth (a vector of
  \<open>MAX_DEPTH\<close> lists, indexed by the depth of an interior node) and the history counters
  (\<open>float\<close> in the source, raised by \<open>1.0f\<close> at a time). A principal-variation slot can hold
  a move that was never assigned (\<open>None\<close>); the model lets such a slot equal no move.
\<close>

record prune_engine = time_state +
  pv_moves :: "Move option list"
  killer_moves :: "int \<Rightarrow> Move list"
  history_table :: "nat \<Rightarrow> nat \<Rightarrow> int"

text \<open>
  Step 1 of the move ordering: the principal-variation move of this depth, if it is
  legal, goes first with the score \<open>INF_SCORE\<close> and is erased from the legal moves. Move
  scores are kept in hundredths, as in \<open>score_move\<close>.
\<close>

definition take_pv ::
  "prune_engine \<Rightarrow> int \<Rightarrow> Move list \<Rightarrow> (int \<times> Move) list \<times> Move list" where
  "take_pv E depth legal_moves =
     (if 0 \<le> depth \<and> nat depth < length (pv_moves E) then
        (case pv_moves E ! nat depth of
           None \<Rightarrow> ([], legal_moves)
         | Some pv_move \<Rightarrow>
             if pv_move \<in> set legal_moves
             then ([(100 * INF_SCORE, pv_move)], remove1 pv_move legal_moves)
             else ([], legal_moves))
      else ([], legal_moves))"

text \<open>Step 2, body of the loop over the killer moves of this depth.\<close>

definition take_killer ::
  "Move \<Rightarrow> (int \<times> Move) list \<times> Move list \<Rightarrow> (int \<times> Move) list \<times> Move list" where
  "take_killer killer_move sl =
     (case sl of
        (scored, legal_moves) \<Rightarrow>
          if killer_move \<in> set legal_moves
          then (scored @ [(100 * (INF_SCORE - 1), killer_move)], remove1 killer_move legal_moves)
          else (scored, legal_moves))"

text \<open>
  Steps 3 and 4: the remaining moves get \<open>score_move\<close> plus their history counter, and
  the list is sorted. (The \<open>float\<close> sum is ordered like this integer as long as the
  counters are small; the order of the moves enters no theorem about this engine.)
\<close>

definition prune_scored_moves ::
  "prune_engine \<Rightarrow> 'p extern \<Rightarrow> 'p \<Rightarrow> int \<Rightarrow> (int \<times> Move) list" where
  "prune_scored_moves E X cr depth =
     (case fold take_killer (killer_moves E depth) (take_pv E depth (GenLegalMoveList X cr)) of
        (scored, legal_moves) \<Rightarrow>
          std_sort X
            (scored @
             map (\<lambda>move. (score_move move X cr
                            + 100 * history_table E (src move) (dst move), move))
                 legal_moves))"

text \<open>
  The bookkeeping at a cut-off: the history counter of the move is raised, and the move
  becomes a killer of this depth unless it is the principal-variation move or already a
  killer (the first killer is overwritten when there are \<open>MAX_KILLER_MOVES\<close>).
\<close>

definition record_cutoff :: "prune_engine \<Rightarrow> int \<Rightarrow> Move \<Rightarrow> prune_engine" where
  "record_cutoff E depth move =
     (let E1 = E\<lparr>history_table :=
                   (history_table E)
                     (src move := (history_table E (src move))
                        (dst move := history_table E (src move) (dst move) + 1))\<rparr>
      in if \<not> (0 \<le> depth \<and> nat depth < length (pv_moves E1)
                \<and> Some move = pv_moves E1 ! nat depth) then
           (if move \<notin> set (killer_moves E1 depth) then
              (if length (killer_moves E1 depth) < MAX_KILLER_MOVES
               then E1\<lparr>killer_moves :=
                         (killer_moves E1)(depth := killer_moves E1 depth @ [move])\<rparr>
               else E1\<lparr>killer_moves :=
                         (killer_moves E1)(depth := (killer_moves E1 depth)[0 := move])\<rparr>)
            else E1)
         else E1)"

text \<open>
  How the move loop of the prune-engine ends: by the cancellation return, or by running
  to its end or to a \<open>break\<close> with \<open>best_score\<close>. Both carry the content of \<open>best_move\<close>,
  the position and the engine.
\<close>

datatype ('p, 'e) prune_loop_result =
    PCancelled "Move option" 'p 'e
  | PCompleted Score "Move option" 'p 'e

text \<open>
  The loop \<open>for (size_t i = 0; i < scored_moves.size(); i++)\<close>. Each recursive call gets
  a fresh, unassigned \<open>temp_best_move\<close>, whose content is dropped; \<open>best_move\<close> is written
  at the root when the score improves.
\<close>

fun prune_search_moves ::
  "('p \<Rightarrow> bool \<Rightarrow> Move option \<Rightarrow> int \<Rightarrow> int \<Rightarrow> Score \<Rightarrow> Score \<Rightarrow> prune_engine
      \<Rightarrow> ('p, prune_engine) result option)
   \<Rightarrow> 'p extern \<Rightarrow> bool \<Rightarrow> int \<Rightarrow> int \<Rightarrow> (int \<times> Move) list \<Rightarrow> 'p \<Rightarrow> Move option
   \<Rightarrow> Score \<Rightarrow> Score \<Rightarrow> Score \<Rightarrow> prune_engine \<Rightarrow> ('p, prune_engine) prune_loop_result option" where
  "prune_search_moves rec X is_white_player depth max_depth [] cr best_move
       best_score alpha_score beta_score E =
     Some (PCompleted best_score best_move cr E)"
| "prune_search_moves rec X is_white_player depth max_depth (entry # rest) cr best_move
       best_score alpha_score beta_score E =
     (let move = snd entry in
      case rec (PushMove X cr move) (\<not> is_white_player) None (depth + 1)
               max_depth alpha_score beta_score E of
        None \<Rightarrow> None
      | Some r \<Rightarrow>
          (let current_score = ret r;
               cr1 = PopMove X (pos r) move;
               E1 = eng r
           in if time_limit_reached E1 then Some (PCancelled best_move cr1 E1)
              else if is_white_player then
                (let improved = (current_score > best_score);
                     best_score1 = (if improved then current_score else best_score);
                     best_move1 = (if improved \<and> depth = 0 then Some move else best_move);
                     alpha_score1 = (if improved then max alpha_score best_score1
                                     else alpha_score)
                 in if beta_score \<le> alpha_score1
                    then Some (PCompleted best_score1 best_move1 cr1 (record_cutoff E1 depth move))
                    else prune_search_moves rec X is_white_player depth max_depth rest cr1
                           best_move1 best_score1 alpha_score1 beta_score E1)
              else
                (let improved = (current_score < best_score);
                     best_score1 = (if improved then current_score else best_score);
                     best_move1 = (if improved \<and> depth = 0 then Some move else best_move);
                     beta_score1 = (if improved then min beta_score best_score1
                                    else beta_score)
                 in if beta_score1 \<le> alpha_score
                    then Some (PCompleted best_score1 best_move1 cr1 (record_cutoff E1 depth move))
                    else prune_search_moves rec X is_white_player depth max_depth rest cr1
                           best_move1 best_score1 alpha_score beta_score1 E1)))"

text \<open>One call of \<open>solve_serial_engine\<close> of the prune-engine, with the recursive call \<open>rec\<close>.\<close>

definition prune_search_node ::
  "('p \<Rightarrow> bool \<Rightarrow> Move option \<Rightarrow> int \<Rightarrow> int \<Rightarrow> Score \<Rightarrow> Score \<Rightarrow> prune_engine
      \<Rightarrow> ('p, prune_engine) result option)
   \<Rightarrow> 'p extern \<Rightarrow> 'p \<Rightarrow> bool \<Rightarrow> Move option \<Rightarrow> int \<Rightarrow> int
   \<Rightarrow> Score \<Rightarrow> Score \<Rightarrow> prune_engine \<Rightarrow> ('p, prune_engine) result option" where
  "prune_search_node rec X cr is_white_player best_move depth max_depth alpha_score beta_score E =
     (if time_limit_reached E
      then Some \<lparr>ret = 0, out_best_move = best_move, pos = cr, eng = E\<rparr>
      else if c_mod depth 5 = 0 \<and> time_up X (clock_reads E)
      then Some \<lparr>ret = 0, out_best_move = best_move, pos = cr,
                 eng = E\<lparr>time_limit_reached := True, clock_reads := clock_reads E + 1\<rparr>\<rparr>
      else
        (let E1 = (if c_mod depth 5 = 0 then E\<lparr>clock_reads := clock_reads E + 1\<rparr> else E)
         in if IsDraw X cr then Some \<lparr>ret = 0, out_best_move = best_move, pos = cr, eng = E1\<rparr>
            else
              (case Evaluate X cr of
                 (ok, terminal) \<Rightarrow>
                   if ok \<and> terminal = TERMINAL_WCHECKMATE
                   then Some \<lparr>ret = - INF_SCORE + depth, out_best_move = best_move,
                              pos = cr, eng = E1\<rparr>
                   else if ok \<and> terminal = TERMINAL_BCHECKMATE
                   then Some \<lparr>ret = INF_SCORE - depth, out_best_move = best_move,
                              pos = cr, eng = E1\<rparr>
                   else if ok \<and> (terminal = TERMINAL_WSTALEMATE
                                  \<or> terminal = TERMINAL_BSTALEMATE)
                   then Some \<lparr>ret = 0, out_best_move = best_move, pos = cr, eng = E1\<rparr>
                   else if depth = max_depth
                   then (case prune_quiesce X cr alpha_score beta_score of
                           (v, cr1) \<Rightarrow>
                             Some \<lparr>ret = v, out_best_move = best_move, pos = cr1, eng = E1\<rparr>)
                   else if GenLegalMoveList X cr = []
                   then Some \<lparr>ret = 0, out_best_move = best_move, pos = cr, eng = E1\<rparr>
                   else
                     (case prune_search_moves rec X is_white_player depth max_depth
                             (prune_scored_moves E1 X cr depth) cr best_move
                             (if is_white_player then - INF_SCORE else INF_SCORE)
                             alpha_score beta_score E1 of
                        None \<Rightarrow> None
                      | Some (PCancelled best_move1 cr1 E2) \<Rightarrow>
                          Some \<lparr>ret = 0, out_best_move = best_move1, pos = cr1, eng = E2\<rparr>
                      | Some (PCompleted best_score best_move1 cr1 E2) \<Rightarrow>
                          Some \<lparr>ret = best_score, out_best_move = best_move1,
                                pos = cr1, eng = E2\<rparr>))))"

text \<open>
  \<open>SerialEngine::solve_serial_engine\<close> of the prune-engine, with the nesting of calls
  counted down from \<open>fuel\<close>.
\<close>

primrec prune_solve_serial_engine ::
  "nat \<Rightarrow> 'p extern \<Rightarrow> 'p \<Rightarrow> bool \<Rightarrow> Move option \<Rightarrow> int \<Rightarrow> int
   \<Rightarrow> Score \<Rightarrow> Score \<Rightarrow> prune_engine \<Rightarrow> ('p, prune_engine) result option" where
  "prune_solve_serial_engine 0 X cr is_white_player best_move depth max_depth
       alpha_score beta_score E = None"
| "prune_solve_serial_engine (Suc fuel) X cr is_white_player best_move depth max_depth
       alpha_score beta_score E =
     prune_search_node (prune_solve_serial_engine fuel X) X cr is_white_player best_move depth
       max_depth alpha_score beta_score E"

text \<open>The principal variation after a finished iteration.\<close>

definition update_pv :: "prune_engine \<Rightarrow> int \<Rightarrow> Move option \<Rightarrow> prune_engine" where
  "update_pv E current_depth current_best_move =
     (if nat current_depth \<le> length (pv_moves E)
      then E\<lparr>pv_moves := (pv_moves E)[nat (current_depth - 1) := current_best_move]\<rparr>
      else E\<lparr>pv_moves := pv_moves E @ [current_best_move]\<rparr>)"

fun prune_deepen ::
  "nat \<Rightarrow> 'p extern \<Rightarrow> bool \<Rightarrow> int list \<Rightarrow> 'p \<Rightarrow> prune_engine \<Rightarrow> Move option \<Rightarrow> bool
   \<Rightarrow> (Move option \<times> bool \<times> 'p \<times> prune_engine) option" where
  "prune_deepen fuel X is_white_player [] cr E best_move_so_far move_found =
     Some (best_move_so_far, move_found, cr, E)"
| "prune_deepen fuel X is_white_player (current_depth # depths) cr E best_move_so_far
       move_found =
     (if time_limit_reached E then Some (best_move_so_far, move_found, cr, E)
      else
        (case prune_solve_serial_engine fuel X cr is_white_player None 0 current_depth
                (- INF_SCORE) INF_SCORE E of
           None \<Rightarrow> None
         | Some r \<Rightarrow>
             if time_limit_reached (eng r)
             then Some (best_move_so_far, move_found, pos r, eng r)
             else prune_deepen fuel X is_white_player depths (pos r)
                    (update_pv (eng r) current_depth (out_best_move r))
                    (out_best_move r) True))"

text \<open>\<open>SerialEngine::solve\<close> of the prune-engine.\<close>

definition prune_solve ::
  "nat \<Rightarrow> 'p extern \<Rightarrow> 'p \<Rightarrow> bool \<Rightarrow> prune_engine
   \<Rightarrow> (Move option \<times> 'p \<times> prune_engine) option" where
  "prune_solve fuel X cr is_white_player E =
     (case prune_deepen fuel X is_white_player [1..prune_MAX_DEPTH] cr
             (E\<lparr>time_limit_reached := False, pv_moves := []\<rparr>) None False of
        None \<Rightarrow> None
      | Some (best_move_so_far, move_found, cr1, E1) \<Rightarrow>
          if move_found then Some (best_move_so_far, cr1, E1)
          else
            (let legal_moves = GenLegalMoveList X cr1 in
             if legal_moves \<noteq> [] then Some (Some (legal_moves ! 0), cr1, E1)
             else Some (Some Move_default, cr1, E1)))"

text \<open>The prune-engine as its constructor leaves it.\<close>

definition prune_fresh_engine :: prune_engine where
  "prune_fresh_engine =
     \<lparr>time_limit_reached = False, clock_reads = 0, pv_moves = [],
      killer_moves = (\<lambda>d. []), history_table = (\<lambda>i j. 0)\<rparr>"

section \<open>Engine construction and a small concrete world\<close>

text \<open>
  \<open>init_transposition_table\<close>: every slot gets key 0, depth -1, score 0, an invalidated
  move and the bound \<open>BOUND_EXACT\<close>. (The vector's entries are value-initialised, so the
  invalidated move is the all-zero move.)
\<close>

definition init_transposition_table :: "engine \<Rightarrow> engine" where
  "init_transposition_table E =
     E\<lparr>transposition_table :=
         (\<lambda>i. \<lparr>tt_key = 0, tt_depth = - 1, tt_score = 0,
                tt_best_move = Some Move_default, tt_bound = BOUND_EXACT\<rparr>)\<rparr>"

text \<open>
  A sorting function that meets the contract of \<open>std::sort\<close> for the comparator
  \<open>a.first > b.first\<close>: insertion sort by descending score.
\<close>

fun insert_desc :: "int \<times> Move \<Rightarrow> (int \<times> Move) list \<Rightarrow> (int \<times> Move) list" where
  "insert_desc x [] = [x]"
| "insert_desc x (y # ys) = (if fst y \<ge> fst x then y # insert_desc x ys else x # y # ys)"

definition sort_desc :: "(int \<times> Move) list \<Rightarrow> (int \<times> Move) list" where
  "sort_desc xs = fold insert_desc xs []"

text \<open>
  A game of one move on an empty board, used to run the definitions on concrete inputs.
  A position is the number of moves pushed from the root. The root has the legal moves
  \<open>root_moves\<close>, the terminal status \<open>root_terminal\<close> and the draw status \<open>root_drawn\<close>;
  every other position is a stalemate of Black without legal moves. \<open>clock\<close> gives the
  readings of the clock.
\<close>

definition line_game ::
  "Move list \<Rightarrow> TERMINAL \<Rightarrow> bool \<Rightarrow> (nat \<Rightarrow> bool) \<Rightarrow> nat extern" where
  "line_game root_moves root_terminal root_drawn clock =
     \<lparr>squares = (\<lambda>cr sq. CHR '' ''),
      WhiteToPlay = (\<lambda>cr. even cr),
      wking = (\<lambda>cr. False),
      wqueen = (\<lambda>cr. False),
      bking = (\<lambda>cr. False),
      bqueen = (\<lambda>cr. False),
      enpassant_target = (\<lambda>cr. None),
      GenLegalMoveList = (\<lambda>cr. if cr = 0 then root_moves else []),
      PushMove = (\<lambda>cr m. Suc cr),
      PopMove = (\<lambda>cr m. cr - 1),
      IsDraw = (\<lambda>cr. cr = 0 \<and> root_drawn),
      Evaluate = (\<lambda>cr. (True, if cr = 0 then root_terminal else TERMINAL_BSTALEMATE)),
      time_up = clock,
      std_sort = sort_desc\<rparr>"

definition quiet_move :: Move where
  "quiet_move = \<lparr>src = 0, dst = 1, special = NOT_SPECIAL, capture = CHR '' ''\<rparr>"

definition queen_capture :: Move where
  "queen_capture = \<lparr>src = 2, dst = 3, special = NOT_SPECIAL, capture = CHR ''q''\<rparr>"

text \<open>
  An engine whose Zobrist tables are zero except for the side key, with the table as
  \<open>init_transposition_table\<close> leaves it, and one with an entry stored for key 0.
\<close>

definition fresh_engine :: engine where
  "fresh_engine =
     init_transposition_table
       \<lparr>time_limit_reached = False, clock_reads = 0,
        zobrist = (\<lambda>p sq. 0), zobrist_side = 1, zobrist_castling = (\<lambda>m. 0),
        zobrist_en_passant = (\<lambda>f. 0),
        transposition_table = (\<lambda>i. \<lparr>tt_key = 0, tt_depth = 0, tt_score = 0,
                                      tt_best_move = None, tt_bound = BOUND_EXACT\<rparr>)\<rparr>"

definition engine_with_entry :: "int \<Rightarrow> int \<Rightarrow> BoundType \<Rightarrow> Move option \<Rightarrow> engine" where
  "engine_with_entry d s b m = store_tt fresh_engine 0 d s b m"

section \<open>What the theorems ask of the external collaborators\<close>

text \<open>
  \<open>PopMove\<close> undoes \<open>PushMove\<close> for every legal move of every position, and the sort
  returns a permutation of its input, sorted by descending score. These are properties
  of the chess-rules library and of \<open>std::sort\<close>; a theorem that depends on one names it
  as a hypothesis.
\<close>

definition pop_undoes_push :: "'p extern \<Rightarrow> bool" where
  "pop_undoes_push X =
     (\<forall>cr m. m \<in> set (GenLegalMoveList X cr) \<longrightarrow> PopMove X (PushMove X cr m) m = cr)"

definition sort_permutes :: "'p extern \<Rightarrow> bool" where
  "sort_permutes X = (\<forall>xs. mset (std_sort X xs) = mset xs)"

definition sort_descends :: "'p extern \<Rightarrow> bool" where
  "sort_descends X = (\<forall>xs. sorted_wrt (\<lambda>a b. fst a \<ge> fst b) (std_sort X xs))"

text \<open>The position a move loop leaves behind.\<close>

fun loop_pos :: "('p, 'e) loop_result \<Rightarrow> 'p" where
  "loop_pos (Cancelled best_move cr E) = cr"
| "loop_pos (Completed best_score local_best alpha_score beta_score best_move cr E) = cr"

fun prune_loop_pos :: "('p, 'e) prune_loop_result \<Rightarrow> 'p" where
  "prune_loop_pos (PCancelled best_move cr E) = cr"
| "prune_loop_pos (PCompleted best_score best_move cr E) = cr"

text \<open>
  Two properties of a recursive call handed to a move loop: it returns the position it
  was given, and it returns at all at a given depth.
\<close>

definition restores ::
  "('p \<Rightarrow> bool \<Rightarrow> Move option \<Rightarrow> int \<Rightarrow> int \<Rightarrow> Score \<Rightarrow> Score \<Rightarrow> 'e \<Rightarrow> ('p, 'e) result option)
   \<Rightarrow> bool" where
  "restores rec =
     (\<forall>cr w bm d md a b E r. rec cr w bm d md a b E = Some r \<longrightarrow> pos r = cr)"

definition returns_at ::
  "('p \<Rightarrow> bool \<Rightarrow> Move option \<Rightarrow> int \<Rightarrow> int \<Rightarrow> Score \<Rightarrow> Score \<Rightarrow> 'e \<Rightarrow> ('p, 'e) result option)
   \<Rightarrow> int \<Rightarrow> int \<Rightarrow> bool" where
  "returns_at rec d md = (\<forall>cr w bm a b E. rec cr w bm d md a b E \<noteq> None)"

text \<open>
  The value of a node that returns before its move loop, in both engines: a draw, a
  checkmate or stalemate reported by \<open>Evaluate\<close>, the horizon, or no legal move; \<open>None\<close>
  when the node goes on to search its moves. Used to state and prove properties of the
  node functions above, which spell these tests out as the source does.
\<close>

definition leaf_value :: "'p extern \<Rightarrow> 'p \<Rightarrow> int \<Rightarrow> int \<Rightarrow> Score option" where
  "leaf_value X cr depth max_depth =
     (if IsDraw X cr then Some 0
      else if fst (Evaluate X cr) \<and> snd (Evaluate X cr) = TERMINAL_WCHECKMATE
      then Some (- INF_SCORE + depth)
      else if fst (Evaluate X cr) \<and> snd (Evaluate X cr) = TERMINAL_BCHECKMATE
      then Some (INF_SCORE - depth)
      else if fst (Evaluate X cr) \<and> (snd (Evaluate X cr) = TERMINAL_WSTALEMATE
                                     \<or> snd (Evaluate X cr) = TERMINAL_BSTALEMATE)
      then Some 0
      else if depth = max_depth then Some (static_eval X cr)
      else if GenLegalMoveList X cr = [] then Some 0
      else None)"

text \<open>What the super-engine's node makes of the end of its move loop.\<close>

fun finish_node ::
  "int \<Rightarrow> 64 word \<Rightarrow> Score \<Rightarrow> int \<Rightarrow> ('p, engine) loop_result \<Rightarrow> ('p, engine) result" where
  "finish_node depth key alpha_original search_depth (Cancelled best_move cr E) =
     \<lparr>ret = 0, out_best_move = best_move, pos = cr, eng = E\<rparr>"
| "finish_node depth key alpha_original search_depth
       (Completed best_score local_best alpha_score beta_score best_move cr E) =
     \<lparr>ret = best_score,
      out_best_move = (if depth = 0 then local_best else best_move),
      pos = cr,
      eng = store_tt E key search_depth best_score
              (store_bound best_score alpha_original beta_score) local_best\<rparr>"

fun prune_finish_node :: "('p, prune_engine) prune_loop_result \<Rightarrow> ('p, prune_engine) result" where
  "prune_finish_node (PCancelled best_move cr E) =
     \<lparr>ret = 0, out_best_move = best_move, pos = cr, eng = E\<rparr>"
| "prune_finish_node (PCompleted best_score best_move cr E) =
     \<lparr>ret = best_score, out_best_move = best_move, pos = cr, eng = E\<rparr>"

section \<open>Properties of the pawn-structure term\<close>

lemma upt_8: "[0..<8] = [0, 1, 2, 3, 4, 5, 6, 7::nat]"
  by (simp add: upt_rec)

lemma count_pawn_files_length:
  "count_pawn_files fs c = Some c' \<Longrightarrow> length c' = length c"
  by (induction fs arbitrary: c) (auto split: if_splits)

text \<open>
  After the counting loop, counter \<open>i\<close> has grown by the number of occurrences of \<open>i\<close>
  in the list; the loop is defined exactly when every file is in 0..7.
\<close>

lemma count_pawn_files_char:
  "length c = 8 \<Longrightarrow>
   count_pawn_files fs c =
     (if (\<forall>f \<in> set fs. 0 \<le> f \<and> f < 8)
      then Some (map (\<lambda>i. c ! i + int (count (mset fs) (int i))) [0..<8])
      else None)"
proof (induction fs arbitrary: c)
  case Nil
  then show ?case
    by (simp add: list_eq_iff_nth_eq)
next
  case (Cons f fs)
  show ?case
  proof (cases "0 \<le> f \<and> f < 8")
    case False
    then show ?thesis by auto
  next
    case True
    let ?c = "c[nat f := c ! nat f + 1]"
    have len: "length ?c = 8" using Cons.prems by simp
    have nth: "\<And>i. i < 8 \<Longrightarrow>
        ?c ! i + int (count (mset fs) (int i)) = c ! i + int (count (mset (f # fs)) (int i))"
      using True Cons.prems by (auto simp: nth_list_update)
    have "map (\<lambda>i. ?c ! i + int (count (mset fs) (int i))) [0..<8]
        = map (\<lambda>i. c ! i + int (count (mset (f # fs)) (int i))) [0..<8]"
      by (rule map_cong) (use nth in auto)
    with True Cons.IH [OF len] show ?thesis by simp
  qed
qed

lemma evaluate_pawn_structure_mset:
  assumes "mset fs = mset gs"
  shows "evaluate_pawn_structure fs w1 = evaluate_pawn_structure gs w2"
proof -
  have "set fs = set gs" using assms by (metis set_mset_mset)
  then have "count_pawn_files fs (replicate 8 0) = count_pawn_files gs (replicate 8 0)"
    using assms by (simp add: count_pawn_files_char)
  then show ?thesis by (simp add: evaluate_pawn_structure_def)
qed

text \<open>
  C9. The claim reads the island term as a penalty of 5 for each island beyond the first,
  so that a side without pawns is charged nothing. The source subtracts
  \<open>5 * (pawn_islands - 1)\<close> unconditionally: with no pawns \<open>pawn_islands\<close> is 0 and the
  term adds 5. On the empty list of pawn files the function returns +5, not 0.
\<close>

theorem evaluate_pawn_structure_no_pawns:
  "evaluate_pawn_structure [] is_white = Some 5"
  by (simp add: evaluate_pawn_structure_def upt_8)

text \<open>
  C10. The result does not depend on \<open>is_white\<close>, and it depends on the pawn files only
  through their multiset: two lists with the same files in any order, evaluated for
  either colour, give the same value (or are both outside the array bounds).
\<close>

theorem evaluate_pawn_structure_colour_blind:
  "evaluate_pawn_structure fs True = evaluate_pawn_structure fs False \<and>
   (mset fs = mset gs \<longrightarrow> evaluate_pawn_structure fs w1 = evaluate_pawn_structure gs w2)"
  using evaluate_pawn_structure_mset [of fs gs w1 w2]
  by (simp add: evaluate_pawn_structure_def)

theorem evaluate_pawn_structure_colour_blind_witness:
  "evaluate_pawn_structure [0, 3, 3] True = evaluate_pawn_structure [0, 3, 3] False \<and>
   mset [0, 3, 3 :: int] = mset [3, 0, 3] \<and>
   evaluate_pawn_structure [0, 3, 3] True = evaluate_pawn_structure [3, 0, 3] False \<and>
   evaluate_pawn_structure [3, 0, 3] False = Some (- 45)"
  using evaluate_pawn_structure_colour_blind [of "[0, 3, 3]" "[3, 0, 3]" True False]
  by (simp add: evaluate_pawn_structure_def upt_8)

section \<open>Properties of the Zobrist key\<close>

lemma tolower_upper:
  "isupper c \<Longrightarrow> tolower c = l \<longleftrightarrow> (of_char c :: nat) + 32 = of_char l"
  by (auto simp: tolower_def isupper_def char_of_eq_iff take_bit_eq_mod)

lemma tolower_not_upper: "\<not> isupper c \<Longrightarrow> tolower c = c"
  by (simp add: tolower_def)

lemma of_char_nat_eq: "(of_char c :: nat) = of_char d \<longleftrightarrow> c = d"
  by simp

lemma upper_codes:
  "(of_char c :: nat) = 80 \<longleftrightarrow> c = CHR ''P''"
  "(of_char c :: nat) = 78 \<longleftrightarrow> c = CHR ''N''"
  "(of_char c :: nat) = 66 \<longleftrightarrow> c = CHR ''B''"
  "(of_char c :: nat) = 82 \<longleftrightarrow> c = CHR ''R''"
  "(of_char c :: nat) = 81 \<longleftrightarrow> c = CHR ''Q''"
  "(of_char c :: nat) = 75 \<longleftrightarrow> c = CHR ''K''"
  using of_char_nat_eq [of c "CHR ''P''"] of_char_nat_eq [of c "CHR ''N''"]
    of_char_nat_eq [of c "CHR ''B''"] of_char_nat_eq [of c "CHR ''R''"]
    of_char_nat_eq [of c "CHR ''Q''"] of_char_nat_eq [of c "CHR ''K''"]
  by simp_all

lemma piece_to_index_upper:
  assumes "isupper c"
  shows "piece_to_index c = (case spec_piece_index c of None \<Rightarrow> - 1 | Some p \<Rightarrow> int p)"
proof -
  have low: "c \<noteq> CHR ''p''" "c \<noteq> CHR ''n''" "c \<noteq> CHR ''b''" "c \<noteq> CHR ''r''"
    "c \<noteq> CHR ''q''" "c \<noteq> CHR ''k''"
    using assms by (auto simp: isupper_def)
  show ?thesis
    using assms low
    by (simp add: piece_to_index_def tolower_upper upper_codes spec_piece_index_def)
qed

lemma piece_to_index_not_upper:
  assumes "\<not> isupper c"
  shows "piece_to_index c = (case spec_piece_index c of None \<Rightarrow> - 1 | Some p \<Rightarrow> int p)"
proof -
  have up: "c \<noteq> CHR ''P''" "c \<noteq> CHR ''N''" "c \<noteq> CHR ''B''" "c \<noteq> CHR ''R''"
    "c \<noteq> CHR ''Q''" "c \<noteq> CHR ''K''"
    using assms by (auto simp: isupper_def)
  show ?thesis
    using assms up
    by (simp add: piece_to_index_def tolower_not_upper spec_piece_index_def)
qed

lemma piece_to_index_spec:
  "piece_to_index c = (case spec_piece_index c of None \<Rightarrow> - 1 | Some p \<Rightarrow> int p)"
  using piece_to_index_upper piece_to_index_not_upper by (cases "isupper c") blast+

lemma spec_piece_index_space: "spec_piece_index (CHR '' '') = None"
  by (simp add: spec_piece_index_def)

text \<open>One square of the loop adds exactly the specification's term for that square.\<close>

lemma zobrist_square_spec:
  "zobrist_square E X cr i key = key XOR spec_piece_term E X cr i"
proof (cases "spec_piece_index (squares X cr i)")
  case None
  then show ?thesis
    by (simp add: zobrist_square_def spec_piece_term_def piece_to_index_spec Let_def)
next
  case (Some p)
  then have "squares X cr i \<noteq> CHR '' ''"
    using spec_piece_index_space by auto
  with Some show ?thesis
    by (simp add: zobrist_square_def spec_piece_term_def piece_to_index_spec Let_def)
qed

lemma fold_zobrist_square:
  "fold (zobrist_square E X cr) sqs key = key XOR xor_list (map (spec_piece_term E X cr) sqs)"
proof (induction sqs arbitrary: key)
  case Nil
  then show ?case by (simp add: xor_list_def)
next
  case (Cons i sqs)
  have "fold (zobrist_square E X cr) (i # sqs) key
      = (key XOR spec_piece_term E X cr i) XOR xor_list (map (spec_piece_term E X cr) sqs)"
    by (simp add: Cons.IH zobrist_square_spec)
  then show ?case
    by (simp add: xor_list_def xor.assoc)
qed

lemma castling_mask_spec:
  "nat (castling_mask X cr)
     = spec_castling_mask (wking X cr) (wqueen X cr) (bking X cr) (bqueen X cr)"
  by (simp add: castling_mask_def spec_castling_mask_def)

text \<open>
  C8. For every position (and every filling of the Zobrist tables),
  \<open>compute_zobrist_key\<close> returns the key the specification describes: the XOR of the
  piece terms of the occupied squares with indices 0..5 for white P, N, B, R, Q, K and
  6..11 for the black pieces, of \<open>zobrist_side\<close> exactly when Black is to move, of
  \<open>zobrist_castling\<close> at the four-bit mask of the castling flags, and of
  \<open>zobrist_en_passant\<close> at the file of the en-passant target exactly when one is set.
\<close>

theorem compute_zobrist_key_spec:
  "compute_zobrist_key E X cr = spec_zobrist_key E X cr"
proof -
  have sq: "fold (zobrist_square E X cr) [0..<64] 0
      = xor_list (map (spec_piece_term E X cr) [0..<64])"
    by (simp add: fold_zobrist_square)
  show ?thesis
    unfolding compute_zobrist_key_def spec_zobrist_key_def Let_def sq castling_mask_spec
    by (cases "enpassant_target X cr") (simp_all add: xor.assoc)
qed

section \<open>Properties of the super-engine search: position and termination\<close>

lemma zobrist_square_clock:
  "zobrist_square (E\<lparr>clock_reads := n\<rparr>) X cr = zobrist_square E X cr"
  by (intro ext) (simp add: zobrist_square_def Let_def)

lemma compute_zobrist_key_clock [simp]:
  "compute_zobrist_key (E\<lparr>clock_reads := n\<rparr>) X cr = compute_zobrist_key E X cr"
  by (simp add: compute_zobrist_key_def zobrist_square_clock Let_def split: option.split)

lemma probe_tt_clock [simp]: "probe_tt (E\<lparr>clock_reads := n\<rparr>) key = probe_tt E key"
  by (simp add: probe_tt_def)

lemma search_node_running:
  assumes "\<not> time_limit_reached E"
      and "\<not> (c_mod depth 5 = 0 \<and> time_up X (clock_reads E))"
  shows "search_node rec X cr w bm depth max_depth alpha beta E =
     (let E1 = (if c_mod depth 5 = 0 then E\<lparr>clock_reads := clock_reads E + 1\<rparr> else E) in
      case probe_cut (probe_tt E (compute_zobrist_key E X cr)) (max_depth - depth) alpha beta of
        Cut s \<Rightarrow> Some \<lparr>ret = s, out_best_move = bm, pos = cr, eng = E1\<rparr>
      | Window a b \<Rightarrow>
          search_expand rec X cr w bm depth max_depth (compute_zobrist_key E X cr) alpha
            (max_depth - depth) a b E1)"
  using assms by (auto simp: search_node_def Let_def split: probe_outcome.split)

lemma search_expand_leaf:
  "leaf_value X cr depth max_depth = Some s \<Longrightarrow>
   search_expand rec X cr w bm depth max_depth key ao sd alpha beta E =
     Some \<lparr>ret = s, out_best_move = bm, pos = cr, eng = E\<rparr>"
  by (cases "Evaluate X cr") (auto simp: search_expand_def leaf_value_def split: if_splits)

lemma search_expand_loop:
  "leaf_value X cr depth max_depth = None \<Longrightarrow>
   search_expand rec X cr w bm depth max_depth key ao sd alpha beta E =
     map_option (finish_node depth key ao sd)
       (search_moves rec X w depth max_depth (scored_moves X cr) cr bm
          (if w then - INF_SCORE else INF_SCORE) None alpha beta E)"
  apply (cases "Evaluate X cr")
  apply (simp add: search_expand_def leaf_value_def split: if_splits cong: if_cong)
  apply (auto simp: Let_def split: option.splits loop_result.splits)
  done


lemma pos_finish_node: "pos (finish_node depth key ao sd lr) = loop_pos lr"
proof (cases lr)
  case (Cancelled bm cr E)
  then show ?thesis by simp
next
  case (Completed s lb a b bm cr E)
  then show ?thesis by simp
qed

lemma search_moves_restores:
  assumes pp: "pop_undoes_push X" and r: "restores rec"
  shows "snd ` set ms \<subseteq> set (GenLegalMoveList X cr) \<Longrightarrow>
         search_moves rec X w depth max_depth ms cr bm best lb alpha beta E = Some res \<Longrightarrow>
         loop_pos res = cr"
proof (induction ms arbitrary: bm best lb alpha beta E)
  case Nil
  then show ?case by auto
next
  case (Cons entrymv rest)
  from Cons.prems(1) have legal: "snd entrymv \<in> set (GenLegalMoveList X cr)"
    and rest: "snd ` set rest \<subseteq> set (GenLegalMoveList X cr)"
    by auto
  obtain r0 where r0: "rec (PushMove X cr (snd entrymv)) (\<not> w) bm (depth + 1) max_depth alpha beta E = Some r0"
    using Cons.prems(2) by (auto split: option.splits)
  have "pos r0 = PushMove X cr (snd entrymv)"
    using r r0 unfolding restores_def by blast
  then have undo: "PopMove X (pos r0) (snd entrymv) = cr"
    using pp legal by (simp add: pop_undoes_push_def)
  show ?case
    using Cons.prems(2) Cons.IH [OF rest] r0 undo
    by (auto simp: Let_def split: if_splits)
qed

lemma search_moves_total:
  assumes "returns_at rec (depth + 1) max_depth"
  shows "search_moves rec X w depth max_depth ms cr bm best lb alpha beta E \<noteq> None"
proof (induction ms arbitrary: w cr bm best lb alpha beta E)
  case Nil
  then show ?case by simp
next
  case (Cons entrymv rest)
  obtain r0 where r0: "rec (PushMove X cr (snd entrymv)) (\<not> w) bm (depth + 1) max_depth alpha beta E = Some r0"
    using assms unfolding returns_at_def by fastforce
  show ?case
    using r0 by (simp add: Let_def Cons.IH del: not_None_eq)
qed

lemma scored_moves_legal:
  assumes "sort_permutes X"
  shows "snd ` set (scored_moves X cr) = set (GenLegalMoveList X cr)"
proof -
  have "mset (scored_moves X cr)
      = mset (map (\<lambda>m. (score_move m X cr, m)) (GenLegalMoveList X cr))"
    using assms by (simp add: scored_moves_def sort_permutes_def)
  then have "set (scored_moves X cr)
      = set (map (\<lambda>m. (score_move m X cr, m)) (GenLegalMoveList X cr))"
    by (rule mset_eq_setD)
  then show ?thesis
    by (simp add: image_image)
qed

lemma search_expand_restores:
  assumes pp: "pop_undoes_push X" and sp: "sort_permutes X" and r: "restores rec"
      and res: "search_expand rec X cr w bm depth max_depth key ao sd alpha beta E = Some res"
  shows "pos res = cr"
proof (cases "leaf_value X cr depth max_depth")
  case (Some s)
  from search_expand_leaf [OF this] res show ?thesis by auto
next
  case None
  from search_expand_loop [OF this] res obtain lr where
    lr: "search_moves rec X w depth max_depth (scored_moves X cr) cr bm
           (if w then - INF_SCORE else INF_SCORE) None alpha beta E = Some lr"
    and fin: "res = finish_node depth key ao sd lr"
    by auto
  have "loop_pos lr = cr"
    using search_moves_restores [OF pp r _ lr] scored_moves_legal [OF sp, of cr] by simp
  with fin show ?thesis by (simp add: pos_finish_node)
qed

lemma search_node_restores:
  assumes pp: "pop_undoes_push X" and sp: "sort_permutes X" and r: "restores rec"
      and res: "search_node rec X cr w bm depth max_depth alpha beta E = Some res"
  shows "pos res = cr"
proof (cases "time_limit_reached E \<or> (c_mod depth 5 = 0 \<and> time_up X (clock_reads E))")
  case True
  with res show ?thesis
    by (auto simp: search_node_def split: if_splits)
next
  case False
  then have run: "\<not> time_limit_reached E" "\<not> (c_mod depth 5 = 0 \<and> time_up X (clock_reads E))"
    by auto
  define E1 where "E1 = (if c_mod depth 5 = 0 then E\<lparr>clock_reads := clock_reads E + 1\<rparr> else E)"
  show ?thesis
  proof (cases "probe_cut (probe_tt E (compute_zobrist_key E X cr)) (max_depth - depth) alpha beta")
    case (Cut s)
    with res search_node_running [OF run, of rec cr w bm max_depth alpha beta]
    show ?thesis by (auto simp: Let_def)
  next
    case (Window a b)
    with res search_node_running [OF run, of rec cr w bm max_depth alpha beta]
    have "search_expand rec X cr w bm depth max_depth (compute_zobrist_key E X cr) alpha
            (max_depth - depth) a b E1 = Some res"
      by (simp add: Let_def E1_def)
    from search_expand_restores [OF pp sp r this] show ?thesis .
  qed
qed

lemma solve_serial_engine_restores:
  assumes pp: "pop_undoes_push X" and sp: "sort_permutes X"
  shows "restores (solve_serial_engine fuel X)"
proof (induction fuel)
  case 0
  then show ?case by (simp add: restores_def)
next
  case (Suc fuel)
  show ?case
    unfolding restores_def
    using search_node_restores [OF pp sp Suc.IH] by simp
qed

lemma search_expand_total:
  assumes rec: "depth < max_depth \<Longrightarrow> returns_at rec (depth + 1) max_depth"
      and le: "depth \<le> max_depth"
  shows "search_expand rec X cr w bm depth max_depth key ao sd alpha beta E \<noteq> None"
proof (cases "leaf_value X cr depth max_depth")
  case (Some s)
  from search_expand_leaf [OF this] show ?thesis by simp
next
  case None
  then have "depth \<noteq> max_depth"
    by (auto simp: leaf_value_def split: if_splits)
  with assms have "returns_at rec (depth + 1) max_depth" by simp
  from search_moves_total [OF this] search_expand_loop [OF None]
  show ?thesis by simp
qed

lemma search_node_total:
  assumes rec: "depth < max_depth \<Longrightarrow> returns_at rec (depth + 1) max_depth"
      and le: "depth \<le> max_depth"
  shows "search_node rec X cr w bm depth max_depth alpha beta E \<noteq> None"
  using search_expand_total [of depth max_depth rec, OF assms]
  by (simp add: search_node_def Let_def split: probe_outcome.splits del: not_None_eq)

lemma solve_serial_engine_total:
  "depth \<le> max_depth \<Longrightarrow> nat (max_depth - depth) < fuel \<Longrightarrow>
   solve_serial_engine fuel X cr w bm depth max_depth alpha beta E \<noteq> None"
proof (induction fuel arbitrary: cr w bm depth alpha beta E)
  case 0
  then show ?case by simp
next
  case (Suc fuel)
  have "depth < max_depth \<Longrightarrow> returns_at (solve_serial_engine fuel X) (depth + 1) max_depth"
    unfolding returns_at_def using Suc.prems by (intro allI Suc.IH) auto
  from search_node_total [of depth max_depth "solve_serial_engine fuel X", OF this Suc.prems(1)]
  show ?case by (simp del: not_None_eq)
qed

lemma deepen_restores:
  assumes pp: "pop_undoes_push X" and sp: "sort_permutes X"
  shows "deepen fuel X w ds cr E best found = Some (m, f, cr', E') \<Longrightarrow> cr' = cr"
proof (induction ds arbitrary: cr E best found)
  case Nil
  then show ?case by simp
next
  case (Cons d ds)
  show ?case
  proof (cases "time_limit_reached E")
    case True
    with Cons.prems show ?thesis by simp
  next
    case False
    with Cons.prems obtain r where
      r: "solve_serial_engine fuel X cr w None 0 d (- INF_SCORE) INF_SCORE E = Some r"
      by (auto split: option.splits)
    have p: "pos r = cr"
      using solve_serial_engine_restores [OF pp sp, of fuel] r unfolding restores_def by blast
    show ?thesis
    proof (cases "time_limit_reached (eng r)")
      case True
      with Cons.prems False r p show ?thesis by simp
    next
      case stop: False
      with Cons.prems False r
      have "deepen fuel X w ds (pos r) (eng r) (out_best_move r) True = Some (m, f, cr', E')"
        by simp
      from Cons.IH [OF this] p show ?thesis by simp
    qed
  qed
qed

lemma deepen_total:
  "(\<And>d. d \<in> set ds \<Longrightarrow> 0 \<le> d \<and> nat d < fuel) \<Longrightarrow>
   deepen fuel X w ds cr E best found \<noteq> None"
proof (induction ds arbitrary: cr E best found)
  case Nil
  then show ?case by simp
next
  case (Cons d ds)
  have d: "0 \<le> d" "nat (d - 0) < fuel" using Cons.prems [of d] by auto
  obtain r where "solve_serial_engine fuel X cr w None 0 d (- INF_SCORE) INF_SCORE E = Some r"
    using solve_serial_engine_total [OF d, of X cr w None "- INF_SCORE" INF_SCORE E] by auto
  moreover have "\<And>cr E best found. deepen fuel X w ds cr E best found \<noteq> None"
    using Cons.IH Cons.prems by simp
  ultimately show ?case
    by (simp del: not_None_eq)
qed

lemma solve_restores:
  assumes pp: "pop_undoes_push X" and sp: "sort_permutes X" and fuel: "nat MAX_DEPTH < fuel"
  shows "\<exists>m E'. solve fuel X cr w E = Some (m, cr, E')"
proof -
  have "\<And>d. d \<in> set [1..MAX_DEPTH] \<Longrightarrow> 0 \<le> d \<and> nat d < fuel"
    using fuel by auto
  from deepen_total [OF this]
  obtain m f cr' E' where d: "deepen fuel X w [1..MAX_DEPTH] cr (E\<lparr>time_limit_reached := False\<rparr>) None False
      = Some (m, f, cr', E')"
    by (metis not_None_eq prod_cases4)
  from deepen_restores [OF pp sp d] have "cr' = cr" .
  with d show ?thesis
    by (simp add: solve_def Let_def)
qed

end
